theory Spec2Isabelle
  imports Main
begin

section \<open>The binding: \<open>chemfiles/frame.py\<close>\<close>

text \<open>
  The Python class \<open>Frame\<close> is a thin wrapper around an opaque native handle. Every
  method forwards to a function of the native library, \<open>c_lib\<close>; the two setters
  \<open>set_positions\<close> and \<open>set_velocities\<close> look at the numpy array first and raise before
  the native call when they reject it.
\<close>

subsection \<open>Python values\<close>

text \<open>
  The exceptions a call can end with, each with its message. \<open>IndexError\<close> is Python's
  own (here: tuple indexing) and \<open>ArgumentError\<close> is the one the binding raises; the others
  are the further failure kinds of the library.
\<close>

datatype error =
    IndexError string
  | ArgumentError string
  | FileError string
  | FormatError string
  | OutOfRange string
  | EndOfFile string

text \<open>The element types a numpy array can have.\<close>

datatype dtype =
    Bool_ | Int8 | Int16 | Int32 | Int64
  | UInt8 | UInt16 | UInt32 | UInt64
  | Float16 | Float32 | Float64
  | Complex64 | Complex128 | Object_

text \<open>
  A numpy array, as far as the binding reads it: the shape tuple, the element type and
  the buffer handed to the native library.
\<close>

record 'a ndarray =
  shape :: "nat list"
  dtype :: dtype
  buffer :: "'a list"

text \<open>
  \<open>tup[i]\<close> on a Python tuple: a negative index counts from the end, and an index
  outside the tuple raises \<open>IndexError\<close>.
\<close>

definition tuple_getitem :: "'a list \<Rightarrow> int \<Rightarrow> error + 'a" where
  "tuple_getitem tup i =
     (let k = (if i < 0 then i + int (length tup) else i)
      in if k < 0 \<or> int (length tup) \<le> k
         then Inl (IndexError ''tuple index out of range'')
         else Inr (tup ! nat k))"

subsection \<open>The native library\<close>

text \<open>
  The native functions the two setters call are not part of the Python sources. They
  are taken as parameters: each receives the frame handle, the array and the row count
  computed by the binding, and returns the handle after the call.
\<close>

record ('h, 'a) c_library =
  chfl_frame_set_positions :: "'h \<Rightarrow> 'a ndarray \<Rightarrow> nat \<Rightarrow> 'h"
  chfl_frame_set_velocities :: "'h \<Rightarrow> 'a ndarray \<Rightarrow> nat \<Rightarrow> 'h"

subsection \<open>The setters\<close>

text \<open>
  \<open>Frame.set_positions\<close>: \<open>shape[1]\<close> is read first, then compared with 3, then the
  element type is compared with \<open>float32\<close>, and only then the native function is called
  with \<open>shape[0]\<close>. A result \<open>Inl e\<close> is the exception \<open>e\<close>, raised before the native call:
  the handle is the one the caller had. A result \<open>Inr h\<close> is the handle after the native
  call.
\<close>

definition set_positions ::
  "('h, 'a) c_library \<Rightarrow> 'h \<Rightarrow> 'a ndarray \<Rightarrow> error + 'h" where
  "set_positions c_lib handle positions =
     (case tuple_getitem (shape positions) 1 of
        Inl e \<Rightarrow> Inl e
      | Inr columns \<Rightarrow>
          if columns \<noteq> 3
          then Inl (ArgumentError ''The positions array should have a Nx3 shape'')
          else if dtype positions \<noteq> Float32
          then Inl (ArgumentError ''The positions array should contain float32'')
          else (case tuple_getitem (shape positions) 0 of
                  Inl e \<Rightarrow> Inl e
                | Inr rows \<Rightarrow>
                    Inr (chfl_frame_set_positions c_lib handle positions rows)))"

text \<open>\<open>Frame.set_velocities\<close>: the same checks, with its own messages and native call.\<close>

definition set_velocities ::
  "('h, 'a) c_library \<Rightarrow> 'h \<Rightarrow> 'a ndarray \<Rightarrow> error + 'h" where
  "set_velocities c_lib handle velocities =
     (case tuple_getitem (shape velocities) 1 of
        Inl e \<Rightarrow> Inl e
      | Inr columns \<Rightarrow>
          if columns \<noteq> 3
          then Inl (ArgumentError ''The velocities array should have a Nx3 shape'')
          else if dtype velocities \<noteq> Float32
          then Inl (ArgumentError ''The velocities array should contain float32'')
          else (case tuple_getitem (shape velocities) 0 of
                  Inl e \<Rightarrow> Inl e
                | Inr rows \<Rightarrow>
                    Inr (chfl_frame_set_velocities c_lib handle velocities rows)))"

text \<open>
  The handle a caller holds after a setter has run: the old one when the setter raised,
  the one the native call returned otherwise.
\<close>

definition handle_after :: "'h \<Rightarrow> error + 'h \<Rightarrow> 'h" where
  "handle_after handle r = (case r of Inl e \<Rightarrow> handle | Inr h \<Rightarrow> h)"

text \<open>Whether a call ended with \<open>ArgumentError\<close>.\<close>

definition is_ArgumentError :: "error + 'h \<Rightarrow> bool" where
  "is_ArgumentError r = (case r of Inl (ArgumentError m) \<Rightarrow> True | _ \<Rightarrow> False)"

text \<open>The shape \<open>(N, 3)\<close> of the docstrings and messages: two axes, the second of length 3.\<close>

definition is_Nx3 :: "nat list \<Rightarrow> bool" where
  "is_Nx3 s = (length s = 2 \<and> s ! 1 = 3)"

section \<open>The engine behind the binding\<close>

text \<open>
  The trajectory engine (the \<open>Trajectory\<close> class and the native library it forwards to) is
  not among the Python sources, which hold its tests only. The definitions of this section
  follow the specification's description of it; each says which part of the
  specification it renders.
\<close>

subsection \<open>Text\<close>

text \<open>
  Modelled from the spec: the line break between the lines of the plain-text format
  (section 6 speaks of lines; the codec itself is missing from the sources).
\<close>

definition newline :: char where
  "newline = CHR 0x0A"

text \<open>
  Modelled from the spec: "fields whitespace-separated" (section 6). Within a line the
  separators are the blank, the tab and the carriage return.
\<close>

definition is_blank :: "char \<Rightarrow> bool" where
  "is_blank c = (c = CHR 0x20 \<or> c = CHR 0x09 \<or> c = CHR 0x0D)"

text \<open>
  Modelled from the spec: the lines of a file's content (section 6). A line ends at a
  line break; text after the last line break is a last line when it is not empty.
\<close>

fun lines_from :: "string \<Rightarrow> string \<Rightarrow> string list" where
  "lines_from acc [] = (if acc = [] then [] else [rev acc])"
| "lines_from acc (c # cs) =
     (if c = newline then rev acc # lines_from [] cs else lines_from (c # acc) cs)"

text \<open>
  Modelled from the spec: the lines of a whole file content (section 6).
\<close>

definition text_lines :: "string \<Rightarrow> string list" where
  "text_lines content = lines_from [] content"

text \<open>
  Modelled from the spec: lines written to a file, each closed by one line break, with
  nothing between them (section 6: "no separator", section 8: "no extra blank lines
  beyond one trailing line").
\<close>

definition unlines :: "string list \<Rightarrow> string" where
  "unlines ls = concat (map (\<lambda>l. l @ [newline]) ls)"

text \<open>
  Modelled from the spec: the whitespace-separated fields of one line (section 6).
\<close>

fun fields_from :: "string \<Rightarrow> string \<Rightarrow> string list" where
  "fields_from acc [] = (if acc = [] then [] else [rev acc])"
| "fields_from acc (c # cs) =
     (if is_blank c
      then (if acc = [] then fields_from [] cs else rev acc # fields_from [] cs)
      else fields_from (c # acc) cs)"

text \<open>
  Modelled from the spec: the fields of a whole line (section 6, "fields
  whitespace-separated").
\<close>

definition line_fields :: "string \<Rightarrow> string list" where
  "line_fields l = fields_from [] l"

text \<open>
  Modelled from the spec: "atom count (decimal)" (section 6): the decimal digits of a
  natural number, most significant first, and their reading.
\<close>

definition digit_char :: "nat \<Rightarrow> char" where
  "digit_char d = char_of (48 + d)"

text \<open>
  Modelled from the spec: the value of a decimal digit; no value for another character
  (section 6, "atom count (decimal)").
\<close>

definition digit_value :: "char \<Rightarrow> nat option" where
  "digit_value c =
     (if 48 \<le> (of_char c :: nat) \<and> (of_char c :: nat) \<le> 57
      then Some ((of_char c :: nat) - 48) else None)"

text \<open>
  Modelled from the spec: the decimal text of a natural number (section 6, "atom count
  (decimal)"), without leading zeros.
\<close>

fun show_nat :: "nat \<Rightarrow> string" where
  "show_nat n =
     (if n < 10 then [digit_char n] else show_nat (n div 10) @ [digit_char (n mod 10)])"

text \<open>
  Modelled from the spec: reading decimal digits, most significant first; a character
  that is no digit fails the reading (section 7, "malformed frame header").
\<close>

fun parse_digits :: "nat \<Rightarrow> string \<Rightarrow> nat option" where
  "parse_digits acc [] = Some acc"
| "parse_digits acc (c # cs) =
     (case digit_value c of None \<Rightarrow> None | Some d \<Rightarrow> parse_digits (10 * acc + d) cs)"

text \<open>
  Modelled from the spec: reading a decimal natural number (section 6, "atom count
  (decimal)"): one digit at least, and digits only.
\<close>

definition parse_nat :: "string \<Rightarrow> nat option" where
  "parse_nat s = (if s = [] then None else parse_digits 0 s)"

subsection \<open>Data model\<close>

text \<open>
  Modelled from the spec: "floating values in a fixed-width or free decimal textual form"
  (section 6). A coordinate is kept as the decimal number \<open>mantissa / 10 ^ scale\<close>; the
  32-bit encoding of the native arrays is not modelled. Its free decimal form is the
  sign, the integer digits and, when \<open>scale\<close> is positive, a point and \<open>scale\<close> fraction
  digits, so that the coordinates 1, 2, 3 of the test \<open>test_write\<close> are written \<open>1 2 3\<close>.
  Exponent forms are not read.
\<close>

record decimal =
  mantissa :: int
  scale :: nat

text \<open>
  Modelled from the spec: the free decimal textual form of a coordinate (section 6).
\<close>

definition show_decimal :: "decimal \<Rightarrow> string" where
  "show_decimal d =
     (let ds = show_nat (nat \<bar>mantissa d\<bar>);
          padded = replicate (Suc (scale d) - length ds) (CHR ''0'') @ ds;
          whole = take (length padded - scale d) padded;
          fraction = drop (length padded - scale d) padded
      in (if mantissa d < 0 then ''-'' else []) @ whole @
         (if scale d = 0 then [] else ''.'' @ fraction))"

text \<open>
  Modelled from the spec: reading a coordinate without sign from its decimal textual
  form (section 6): integer digits, then optionally a point and fraction digits.
\<close>

definition parse_unsigned :: "string \<Rightarrow> decimal option" where
  "parse_unsigned s =
     (let whole = takeWhile (\<lambda>c. c \<noteq> CHR ''.'') s;
          fraction = drop 1 (dropWhile (\<lambda>c. c \<noteq> CHR ''.'') s)
      in if whole = [] then None
         else (case parse_digits 0 (whole @ fraction) of
                 None \<Rightarrow> None
               | Some m \<Rightarrow> Some \<lparr>mantissa = int m, scale = length fraction\<rparr>))"

text \<open>
  Modelled from the spec: reading a coordinate from its decimal textual form
  (section 6), with an optional minus sign in front.
\<close>

definition parse_decimal :: "string \<Rightarrow> decimal option" where
  "parse_decimal s =
     (case s of
        [] \<Rightarrow> None
      | c # cs \<Rightarrow>
          if c = CHR ''-''
          then (case parse_unsigned cs of
                  None \<Rightarrow> None
                | Some d \<Rightarrow> Some (d\<lparr>mantissa := - mantissa d\<rparr>))
          else parse_unsigned s)"

text \<open>
  Modelled from the spec: one row of the positions or velocities array, three
  coordinates (section 3, "N \<times> 3 positions array").
\<close>

type_synonym vector3 = "decimal \<times> decimal \<times> decimal"

text \<open>
  Modelled from the spec: Atom (section 3). Of its fields (name, type, mass, charge) the
  name is kept: the plain-text format carries no other.
\<close>

record atom =
  name :: string

text \<open>
  Modelled from the spec: UnitCell (section 3): "either degenerate (infinite/no
  periodicity), orthorhombic (three lengths), or triclinic (three lengths + three
  angles)".
\<close>

datatype unit_cell =
    Infinite
  | Orthorhombic decimal decimal decimal
  | Triclinic decimal decimal decimal decimal decimal decimal

text \<open>
  Modelled from the spec: Topology (section 3): the ordered atoms and the bonds, pairs of
  atom indices.
\<close>

record topology =
  atoms :: "atom list"
  bonds :: "(nat \<times> nat) list"

text \<open>
  Modelled from the spec: Frame (section 3): step index, the rows of positions, the
  optional rows of velocities, one UnitCell and one Topology.
\<close>

record frame =
  step :: nat
  positions :: "vector3 list"
  velocities :: "vector3 list option"
  cell :: unit_cell
  topology :: topology

subsection \<open>The plain-text codec\<close>

text \<open>
  Modelled from the spec: line 2 of a block, "on write, a fixed library-identifying
  string" (section 6); the text is the one the test \<open>test_write\<close> expects.
\<close>

definition xyz_comment :: string where
  "xyz_comment = ''Written by Chemharp''"

text \<open>
  Modelled from the spec: "one line per atom: <name> <x> <y> <z> (and optionally
  velocities)" (section 6), the fields separated by one blank.
\<close>

definition show_vector3 :: "vector3 \<Rightarrow> string" where
  "show_vector3 v =
     (case v of (x, y, z) \<Rightarrow> show_decimal x @ '' '' @ show_decimal y @ '' '' @ show_decimal z)"

text \<open>
  Modelled from the spec: the line of one atom (section 6): the name, the position and,
  when the atom has one, the velocity.
\<close>

definition xyz_atom_line :: "atom \<Rightarrow> vector3 \<Rightarrow> vector3 option \<Rightarrow> string" where
  "xyz_atom_line a p v =
     name a @ '' '' @ show_vector3 p @
     (case v of None \<Rightarrow> [] | Some w \<Rightarrow> '' '' @ show_vector3 w)"

text \<open>
  Modelled from the spec: the velocities of a frame are "present/absent as a whole"
  (section 3): one optional row per position row.
\<close>

definition velocity_column :: "frame \<Rightarrow> vector3 option list" where
  "velocity_column f =
     (case velocities f of
        None \<Rightarrow> replicate (length (positions f)) None
      | Some vs \<Rightarrow>
          map Some (take (length (positions f)) vs) @
          replicate (length (positions f) - length vs) None)"

text \<open>
  Modelled from the spec: the block of one frame (section 6): "line 1 = atom count
  (decimal), line 2 = a free-text comment, followed by one line per atom".
\<close>

definition xyz_frame_lines :: "frame \<Rightarrow> string list" where
  "xyz_frame_lines f =
     show_nat (length (positions f)) # xyz_comment #
     map (\<lambda>(a, p, v). xyz_atom_line a p v)
       (zip (atoms (topology f)) (zip (positions f) (velocity_column f)))"

text \<open>
  Modelled from the spec: "write-frame" (section 4.5): "on write emit a deterministic,
  format-conformant textual ... block per frame".
\<close>

definition xyz_write_frame :: "frame \<Rightarrow> string" where
  "xyz_write_frame f = unlines (xyz_frame_lines f)"

text \<open>
  Modelled from the spec: "parse a frame's atom count header" (section 4.5): the first
  line of a block holds one field, the decimal atom count.
\<close>

definition parse_count :: "string \<Rightarrow> nat option" where
  "parse_count l = (case line_fields l of [w] \<Rightarrow> parse_nat w | _ \<Rightarrow> None)"

text \<open>
  Modelled from the spec: the boundary of the block that starts a list of lines
  (section 4.5, "scanning frame boundaries"): the atom count \<open>n\<close> of line 1, when the
  comment line and \<open>n\<close> atom lines follow. No line left is EndOfFile; a header that is not
  a count, or a block cut short, is a FormatError ("malformed frame header", section 7).
\<close>

definition xyz_header :: "string list \<Rightarrow> error + nat" where
  "xyz_header ls =
     (case ls of
        [] \<Rightarrow> Inl (EndOfFile ''no frame left in the file'')
      | h # rest \<Rightarrow>
          (case parse_count h of
             None \<Rightarrow> Inl (FormatError ''malformed frame header'')
           | Some n \<Rightarrow>
               if length rest < Suc n
               then Inl (FormatError ''the file ends inside a frame'')
               else Inr n))"

text \<open>
  Modelled from the spec: "per-atom name + 3 coordinates (+ optionally 3 velocities)"
  (section 4.5): an atom line has four fields or seven.
\<close>

definition parse_vector3 :: "string \<Rightarrow> string \<Rightarrow> string \<Rightarrow> vector3 option" where
  "parse_vector3 a b c =
     (case parse_decimal a of
        None \<Rightarrow> None
      | Some x \<Rightarrow>
          (case parse_decimal b of
             None \<Rightarrow> None
           | Some y \<Rightarrow>
               (case parse_decimal c of
                  None \<Rightarrow> None
                | Some z \<Rightarrow> Some (x, y, z))))"

text \<open>
  Modelled from the spec: reading one atom line (section 4.5): a line with another
  number of fields, or with a field that is no coordinate, is malformed.
\<close>

definition parse_atom_line :: "string \<Rightarrow> (atom \<times> vector3 \<times> vector3 option) option" where
  "parse_atom_line l =
     (case line_fields l of
        [n, x, y, z] \<Rightarrow>
          (case parse_vector3 x y z of
             None \<Rightarrow> None
           | Some p \<Rightarrow> Some (\<lparr>name = n\<rparr>, p, None))
      | [n, x, y, z, vx, vy, vz] \<Rightarrow>
          (case parse_vector3 x y z of
             None \<Rightarrow> None
           | Some p \<Rightarrow>
               (case parse_vector3 vx vy vz of
                  None \<Rightarrow> None
                | Some v \<Rightarrow> Some (\<lparr>name = n\<rparr>, p, Some v)))
      | _ \<Rightarrow> None)"

text \<open>
  Modelled from the spec: reading the atom lines of a block, in order (section 4.5); one
  malformed line fails the block.
\<close>

fun parse_atom_lines :: "string list \<Rightarrow> (atom \<times> vector3 \<times> vector3 option) list option" where
  "parse_atom_lines [] = Some []"
| "parse_atom_lines (l # ls) =
     (case parse_atom_line l of
        None \<Rightarrow> None
      | Some r \<Rightarrow>
          (case parse_atom_lines ls of
             None \<Rightarrow> None
           | Some rs \<Rightarrow> Some (r # rs)))"

text \<open>
  Modelled from the spec: velocities "present/absent as a whole" (section 3): the rows
  read carry velocities when every row has them, none when no row has; a mix is a
  field mismatch.
\<close>

definition gather_velocities :: "vector3 option list \<Rightarrow> vector3 list option option" where
  "gather_velocities vs =
     (if list_all (\<lambda>v. v = None) vs then Some None
      else if list_all (\<lambda>v. v \<noteq> None) vs then Some (Some (map the vs))
      else None)"

text \<open>
  Modelled from the spec: the frame of the block that starts a list of lines, and the
  number of lines of the block (sections 4.5 and 6). The format carries neither a unit
  cell nor bonds: the frame has the infinite cell and no bond. The step index is set by
  the Trajectory.
\<close>

definition xyz_read_block :: "string list \<Rightarrow> error + (frame \<times> nat)" where
  "xyz_read_block ls =
     (case xyz_header ls of
        Inl e \<Rightarrow> Inl e
      | Inr n \<Rightarrow>
          (case parse_atom_lines (take n (drop 2 ls)) of
             None \<Rightarrow> Inl (FormatError ''malformed atom line'')
           | Some rows \<Rightarrow>
               (case gather_velocities (map (\<lambda>(a, p, v). v) rows) of
                  None \<Rightarrow> Inl (FormatError ''velocities on a part of the atoms only'')
                | Some vs \<Rightarrow>
                    Inr (\<lparr>step = 0,
                          positions = map (\<lambda>(a, p, v). p) rows,
                          velocities = vs,
                          cell = Infinite,
                          topology = \<lparr>atoms = map (\<lambda>(a, p, v). a) rows, bonds = []\<rparr>\<rparr>,
                         n + 2))))"

text \<open>
  Modelled from the spec: "read-sequential-next" (section 4.5): the frame of the block at
  a position of the stream (a number of lines from the start), and the position after
  the block.
\<close>

definition xyz_read_next :: "string \<Rightarrow> nat \<Rightarrow> error + (frame \<times> nat)" where
  "xyz_read_next content pos =
     (case xyz_read_block (drop pos (text_lines content)) of
        Inl e \<Rightarrow> Inl e
      | Inr (f, k) \<Rightarrow> Inr (f, pos + k))"

text \<open>
  Modelled from the spec: the seek of a step (section 5: "each read_step may re-scan
  prior frame boundaries"): the position of step \<open>k\<close>, found from the start by walking
  over \<open>k\<close> block boundaries; the atom lines walked over are not parsed.
\<close>

fun xyz_seek :: "nat \<Rightarrow> string list \<Rightarrow> error + nat" where
  "xyz_seek 0 ls = Inr 0"
| "xyz_seek (Suc k) ls =
     (case xyz_header ls of
        Inl e \<Rightarrow> Inl e
      | Inr n \<Rightarrow>
          (case xyz_seek k (drop (n + 2) ls) of
             Inl e \<Rightarrow> Inl e
           | Inr pos \<Rightarrow> Inr (n + 2 + pos)))"

text \<open>
  Modelled from the spec: "read-frame-at-step" (section 4.5): seek the step, then read the
  block there.
\<close>

definition xyz_read_at_step :: "string \<Rightarrow> nat \<Rightarrow> error + (frame \<times> nat)" where
  "xyz_read_at_step content k =
     (case xyz_seek k (text_lines content) of
        Inl e \<Rightarrow> Inl e
      | Inr pos \<Rightarrow> xyz_read_next content pos)"

text \<open>
  Modelled from the spec: "step-count" (section 4.5): "accumulate a running step count
  ... by scanning frame boundaries". The scan stops at the end of the lines, or at the
  first line that does not start a complete block.
\<close>

fun xyz_scan :: "string list \<Rightarrow> nat" where
  "xyz_scan [] = 0"
| "xyz_scan (h # rest) =
     (case parse_count h of
        None \<Rightarrow> 0
      | Some n \<Rightarrow> if length rest < Suc n then 0 else Suc (xyz_scan (drop (Suc n) rest)))"

text \<open>
  Modelled from the spec: "step-count" (section 4.5) of a file content.
\<close>

definition xyz_step_count :: "string \<Rightarrow> nat" where
  "xyz_step_count content = xyz_scan (text_lines content)"

subsection \<open>Codecs and their registry\<close>

text \<open>
  Modelled from the spec: "Each codec is polymorphic over the capability set
  {detect-by-extension, read-frame-at-step, read-sequential-next, write-frame,
  step-count}" (section 4.5). A codec also says whether its format carries a unit cell
  and a topology of its own (section 4.6: overrides are for a format that "lacks that
  metadata"). A position of the stream is a natural number, read by the codec alone.
  Detection by extension is the registry's.
\<close>

record codec =
  carries_cell :: bool
  carries_topology :: bool
  read_next :: "string \<Rightarrow> nat \<Rightarrow> error + (frame \<times> nat)"
  read_at_step :: "string \<Rightarrow> nat \<Rightarrow> error + (frame \<times> nat)"
  step_count :: "string \<Rightarrow> nat"
  write_frame :: "frame \<Rightarrow> string"

text \<open>
  Modelled from the spec: the plain-text coordinate format as a codec (sections 4.5
  and 6). It carries no unit cell and no bonding graph.
\<close>

definition xyz_codec :: codec where
  "xyz_codec =
     \<lparr>carries_cell = False,
      carries_topology = False,
      read_next = xyz_read_next,
      read_at_step = xyz_read_at_step,
      step_count = xyz_step_count,
      write_frame = xyz_write_frame\<rparr>"

text \<open>
  Modelled from the spec: the registry, "a static table" of the formats (section 9), each
  with its name, its file extension and its codec.
\<close>

record format_entry =
  format_name :: string
  format_extension :: string
  format_codec :: codec

text \<open>
  Modelled from the spec: the format registry (section 4.5), the known formats in the
  order in which a lookup tries them.
\<close>

type_synonym registry = "format_entry list"

text \<open>
  Modelled from the spec: the extension of a path: the text after the last point of
  the path's last component; a last component without a point has no extension.
\<close>

definition extension :: "string \<Rightarrow> string option" where
  "extension p =
     (let base = takeWhile (\<lambda>c. c \<noteq> CHR ''/'') (rev p)
      in if CHR ''.'' \<in> set base
         then Some (rev (takeWhile (\<lambda>c. c \<noteq> CHR ''.'') base))
         else None)"

text \<open>
  Modelled from the spec: the message of section 8, property 5, which the tests of
  \<open>tests/utils.py\<close> expect letter for letter.
\<close>

definition no_extension_message :: "string \<Rightarrow> string" where
  "no_extension_message p =
     ''file at '' @ [CHR 0x27] @ p @ [CHR 0x27] @
     '' does not have an extension, provide a format name to read it''"

text \<open>
  Modelled from the spec: "Registry resolves a codec by file extension unless an explicit
  format name is supplied, failing with FormatError (unknown extension / unknown
  explicit name) or with a specific "no extension, provide a format name" error when a
  path has no extension and none was given" (section 4.5). The specification fixes the
  text of the last message only.
\<close>

definition resolve_codec :: "registry \<Rightarrow> string \<Rightarrow> string option \<Rightarrow> error + codec" where
  "resolve_codec reg p fmt =
     (case fmt of
        Some n \<Rightarrow>
          (case find (\<lambda>e. format_name e = n) reg of
             None \<Rightarrow> Inl (FormatError (''unknown format name: '' @ n))
           | Some e \<Rightarrow> Inr (format_codec e))
      | None \<Rightarrow>
          (case extension p of
             None \<Rightarrow> Inl (FormatError (no_extension_message p))
           | Some x \<Rightarrow>
               (case find (\<lambda>e. format_extension e = x) reg of
                  None \<Rightarrow> Inl (FormatError (''unknown file extension: '' @ x))
                | Some e \<Rightarrow> Inr (format_codec e))))"

subsection \<open>Trajectory\<close>

text \<open>
  Modelled from the spec: the three modes of \<open>open\<close> (section 4.6).
\<close>

datatype mode = Read | Write | Append

text \<open>
  Modelled from the spec: Trajectory (section 3): it "owns one open file handle/stream, a
  reference to the resolved codec, an optional override UnitCell, an optional override
  Topology". The stream is the content of the file and the position in it; the step the
  next sequential read returns is counted beside it.
\<close>

record trajectory =
  path :: string
  mode :: mode
  format :: codec
  content :: string
  cursor :: nat
  next_step :: nat
  cell_override :: "unit_cell option"
  topology_override :: "topology option"

text \<open>
  Modelled from the spec: opening the stream (section 4.6): "Opening a nonexistent file
  for read fails with FileError". Writing starts an empty file, appending starts after
  the content the file has.
\<close>

definition open_file ::
  "(string \<rightharpoonup> string) \<Rightarrow> string \<Rightarrow> mode \<Rightarrow> codec \<Rightarrow> error + trajectory" where
  "open_file files p m c =
     (let start = \<lparr>path = p, mode = m, format = c, content = [], cursor = 0,
                   next_step = 0, cell_override = None, topology_override = None\<rparr>
      in case m of
           Read \<Rightarrow>
             (case files p of
                None \<Rightarrow> Inl (FileError (''no file at '' @ p))
              | Some text \<Rightarrow> Inr (start\<lparr>content := text\<rparr>))
         | Write \<Rightarrow> Inr start
         | Append \<Rightarrow>
             (case files p of
                None \<Rightarrow> Inr start
              | Some text \<Rightarrow> Inr (start\<lparr>content := text\<rparr>)))"

text \<open>
  Modelled from the spec: \<open>open(path, mode, [format])\<close> (section 4.6): the codec is
  resolved first, then the file is opened; the test \<open>test_last_error\<close> opens a path that
  has no extension and names no file, and expects the message about the extension.
\<close>

definition open_trajectory ::
  "registry \<Rightarrow> (string \<rightharpoonup> string) \<Rightarrow> string \<Rightarrow> mode \<Rightarrow> string option \<Rightarrow> error + trajectory"
  where
  "open_trajectory reg files p m fmt =
     (case resolve_codec reg p fmt of
        Inl e \<Rightarrow> Inl e
      | Inr c \<Rightarrow> open_file files p m c)"

text \<open>
  Modelled from the spec: \<open>close()\<close> (sections 3 and 4.6): "closed (flushing writers)". A
  trajectory open for reading leaves the files as they are.
\<close>

definition close_trajectory :: "(string \<rightharpoonup> string) \<Rightarrow> trajectory \<Rightarrow> (string \<rightharpoonup> string)" where
  "close_trajectory files t =
     (case mode t of
        Read \<Rightarrow> files
      | Write \<Rightarrow> files(path t \<mapsto> content t)
      | Append \<Rightarrow> files(path t \<mapsto> content t))"

text \<open>
  Modelled from the spec: "\<open>nsteps()\<close> reports total frame count, computed by the codec"
  (section 4.6).
\<close>

definition nsteps :: "trajectory \<Rightarrow> nat" where
  "nsteps t = step_count (format t) (content t)"

text \<open>
  Modelled from the spec: "\<open>set_cell(cell)\<close> / \<open>set_topology(topology_or_path)\<close> install an
  override applied to every subsequently read Frame whose own format lacks that
  metadata" (section 4.6).
\<close>

definition set_cell :: "trajectory \<Rightarrow> unit_cell \<Rightarrow> trajectory" where
  "set_cell t c = t\<lparr>cell_override := Some c\<rparr>"

text \<open>
  Modelled from the spec: \<open>set_topology\<close> with a topology (section 4.6): the override
  topology is installed.
\<close>

definition set_topology :: "trajectory \<Rightarrow> topology \<Rightarrow> trajectory" where
  "set_topology t tp = t\<lparr>topology_override := Some tp\<rparr>"

text \<open>
  Modelled from the spec: the overrides are "applied to every subsequently read Frame
  whose own format lacks that metadata" (section 4.6).
\<close>

definition apply_overrides :: "trajectory \<Rightarrow> frame \<Rightarrow> frame" where
  "apply_overrides t f =
     (let f1 = (case cell_override t of
                  None \<Rightarrow> f
                | Some c \<Rightarrow> if carries_cell (format t) then f else f\<lparr>cell := c\<rparr>)
      in case topology_override t of
           None \<Rightarrow> f1
         | Some tp \<Rightarrow> if carries_topology (format t) then f1 else f1\<lparr>topology := tp\<rparr>)"

text \<open>
  Modelled from the spec: "\<open>read()\<close> advances an internal cursor and returns the next Frame,
  failing with EndOfFile when exhausted" (section 4.6). The specification gives
  \<open>read\<close> for a trajectory open for reading; in another mode the call fails. A call that
  fails leaves the trajectory as it was (section 7: "no best-effort partial state").
\<close>

definition read :: "trajectory \<Rightarrow> error + (frame \<times> trajectory)" where
  "read t =
     (if mode t \<noteq> Read then Inl (FileError ''the trajectory is not open for reading'')
      else (case read_next (format t) (content t) (cursor t) of
              Inl e \<Rightarrow> Inl e
            | Inr (f, pos) \<Rightarrow>
                Inr (apply_overrides t (f\<lparr>step := next_step t\<rparr>),
                     t\<lparr>cursor := pos, next_step := Suc (next_step t)\<rparr>)))"

text \<open>
  Modelled from the spec: "\<open>read_step(n)\<close> performs a random-access read of absolute step n
  (0-indexed), failing with OutOfRange if n \<ge> \<open>nsteps()\<close>" (section 4.6). Sequential
  reading goes on after the step read.
\<close>

definition read_step :: "trajectory \<Rightarrow> nat \<Rightarrow> error + (frame \<times> trajectory)" where
  "read_step t n =
     (if mode t \<noteq> Read then Inl (FileError ''the trajectory is not open for reading'')
      else if nsteps t \<le> n then Inl (OutOfRange ''no such step in the trajectory'')
      else (case read_at_step (format t) (content t) n of
              Inl e \<Rightarrow> Inl e
            | Inr (f, pos) \<Rightarrow>
                Inr (apply_overrides t (f\<lparr>step := n\<rparr>),
                     t\<lparr>cursor := pos, next_step := Suc n\<rparr>)))"

text \<open>
  Modelled from the spec: "\<open>write(frame)\<close> requires \<open>frame.topology().natoms() ==
  frame.positions().shape[0]\<close>, failing with ArgumentError otherwise, and appends one frame
  block via the codec" (section 4.6). The specification gives \<open>write\<close> for a trajectory
  open for writing or appending; in read mode the call fails. (The name \<open>write\<close> is a
  command of Isabelle, hence \<open>trajectory_write\<close>.)
\<close>

definition trajectory_write :: "trajectory \<Rightarrow> frame \<Rightarrow> error + trajectory" where
  "trajectory_write t f =
     (if mode t = Read then Inl (FileError ''the trajectory is not open for writing'')
      else if length (atoms (topology f)) \<noteq> length (positions f)
      then Inl (ArgumentError ''the topology and the positions differ in their atom counts'')
      else Inr (t\<lparr>content := content t @ write_frame (format t) f\<rparr>))"

text \<open>
  Modelled from the spec: the trajectory a caller holds after \<open>write\<close>: a call that fails
  has changed nothing (section 7: "no best-effort partial state").
\<close>

definition trajectory_after :: "trajectory \<Rightarrow> error + trajectory \<Rightarrow> trajectory" where
  "trajectory_after t r = (case r of Inl e \<Rightarrow> t | Inr t' \<Rightarrow> t')"

text \<open>
  Modelled from the spec: \<open>set_topology\<close> with a path (section 4.6,
  "\<open>set_topology(topology_or_path)\<close>"): the override is the topology of the first frame of
  the file at the path.
\<close>

definition set_topology_file ::
  "registry \<Rightarrow> (string \<rightharpoonup> string) \<Rightarrow> trajectory \<Rightarrow> string \<Rightarrow> error + trajectory" where
  "set_topology_file reg files t p =
     (case open_trajectory reg files p Read None of
        Inl e \<Rightarrow> Inl e
      | Inr source \<Rightarrow>
          (case read source of
             Inl e \<Rightarrow> Inl e
           | Inr (f, source') \<Rightarrow> Inr (set_topology t (topology f))))"

text \<open>
  Modelled from the spec: a caller's reads in sequence, sequential ones and random-access
  ones; the first call that fails ends the sequence with its error, as a raised
  exception does.
\<close>

datatype read_call = ReadNext | ReadStep nat

text \<open>
  Modelled from the spec: one read of a caller, \<open>read()\<close> or \<open>read_step(n)\<close>
  (section 4.6).
\<close>

definition read_call :: "trajectory \<Rightarrow> read_call \<Rightarrow> error + (frame \<times> trajectory)" where
  "read_call t c = (case c of ReadNext \<Rightarrow> read t | ReadStep n \<Rightarrow> read_step t n)"

text \<open>
  Modelled from the spec: a sequence of reads, each on the trajectory the one before
  left (section 4.6); it returns the frames read, in order.
\<close>

fun read_calls :: "trajectory \<Rightarrow> read_call list \<Rightarrow> error + (frame list \<times> trajectory)" where
  "read_calls t [] = Inr ([], t)"
| "read_calls t (c # cs) =
     (case read_call t c of
        Inl e \<Rightarrow> Inl e
      | Inr (f, t') \<Rightarrow>
          (case read_calls t' cs of
             Inl e \<Rightarrow> Inl e
           | Inr (fs, t'') \<Rightarrow> Inr (f # fs, t'')))"

text \<open>
  Modelled from the spec: a caller's writes in sequence; the first call that fails ends
  the sequence.
\<close>

fun write_all :: "trajectory \<Rightarrow> frame list \<Rightarrow> error + trajectory" where
  "write_all t [] = Inr t"
| "write_all t (f # fs) =
     (case trajectory_write t f of
        Inl e \<Rightarrow> Inl e
      | Inr t' \<Rightarrow> write_all t' fs)"

subsection \<open>Diagnostics\<close>

text \<open>
  Modelled from the spec: "log-level control with at least levels {NONE, ERROR, WARNING,
  INFO, DEBUG}" (section 6).
\<close>

datatype log_level = NONE | ERROR | WARNING | INFO | DEBUG

text \<open>
  Modelled from the spec: the diagnostics surface (section 6): the "process-wide
  last-error text retrievable and clearable", "a settable warning callback invoked with a
  human-readable message string", and the log level "gating whether warnings/errors are
  also emitted to a diagnostic stream". A callback is a function of the caller: it
  receives the message and the caller's state, returns the caller's new state, and
  says whether it raised.
\<close>

record 'u diagnostics =
  last_error :: string
  warning_callback :: "(string \<Rightarrow> 'u \<Rightarrow> bool \<times> 'u) option"
  caller_state :: 'u
  level :: log_level
  diagnostic_stream :: "string list"

text \<open>Modelled from the spec: the message an error carries (section 7).\<close>

fun message_of :: "error \<Rightarrow> string" where
  "message_of (IndexError m) = m"
| "message_of (ArgumentError m) = m"
| "message_of (FileError m) = m"
| "message_of (FormatError m) = m"
| "message_of (OutOfRange m) = m"
| "message_of (EndOfFile m) = m"

text \<open>
  Modelled from the spec: "the process-wide last-error text is updated on every failure
  for introspection, and failures also route through the level-gated diagnostic/warning
  callback before being surfaced as a raised failure condition" (section 7). The level
  filters the diagnostic stream; an installed callback receives the message at every
  level, and what it raises is not passed on (test \<open>test_warning_with_exception\<close>).
\<close>

definition report :: "'u diagnostics \<Rightarrow> error + 'a \<Rightarrow> 'u diagnostics" where
  "report d r =
     (case r of
        Inr x \<Rightarrow> d
      | Inl e \<Rightarrow>
          (let d1 = d\<lparr>last_error := message_of e,
                      diagnostic_stream :=
                        (if level d = NONE then diagnostic_stream d
                         else diagnostic_stream d @ [message_of e])\<rparr>
           in case warning_callback d of
                None \<Rightarrow> d1
              | Some callback \<Rightarrow>
                  d1\<lparr>caller_state := snd (callback (message_of e) (caller_state d))\<rparr>))"

text \<open>Modelled from the spec: the last-error text is "clearable" (section 6).\<close>

definition clear_errors :: "'u diagnostics \<Rightarrow> 'u diagnostics" where
  "clear_errors d = d\<lparr>last_error := []\<rparr>"

text \<open>Modelled from the spec: "a settable warning callback" (section 6).\<close>

definition set_warnings_callback ::
  "'u diagnostics \<Rightarrow> (string \<Rightarrow> 'u \<Rightarrow> bool \<times> 'u) \<Rightarrow> 'u diagnostics" where
  "set_warnings_callback d callback = d\<lparr>warning_callback := Some callback\<rparr>"

text \<open>
  Modelled from the spec: the constructor \<open>Trajectory(path, mode, format)\<close> as the tests
  call it: \<open>open\<close>, with its failure reported to the diagnostics before it is raised.
\<close>

definition Trajectory ::
  "registry \<Rightarrow> (string \<rightharpoonup> string) \<Rightarrow> 'u diagnostics \<Rightarrow> string \<Rightarrow> mode \<Rightarrow> string option \<Rightarrow>
   (error + trajectory) \<times> 'u diagnostics" where
  "Trajectory reg files d p m fmt =
     (let r = open_trajectory reg files p m fmt in (r, report d r))"

subsection \<open>Files made of frame blocks\<close>

text \<open>
  Modelled from the spec: a frame block as it stands in a file (section 6): a comment
  line and the atom lines; the block's first line is the decimal count of its atom
  lines. A line holds no line break.
\<close>

type_synonym block = "string \<times> string list"

text \<open>
  Modelled from the spec: a line of a file (section 6): text without a line break.
\<close>

definition is_line :: "string \<Rightarrow> bool" where
  "is_line l = (newline \<notin> set l)"

text \<open>
  Modelled from the spec: a frame block (section 6) is made of lines.
\<close>

definition is_block :: "block \<Rightarrow> bool" where
  "is_block b = (is_line (fst b) \<and> list_all is_line (snd b))"

text \<open>
  Modelled from the spec: the lines of a frame block (section 6): "line 1 = atom count
  (decimal), line 2 = a free-text comment, followed by one line per atom".
\<close>

definition block_lines :: "block \<Rightarrow> string list" where
  "block_lines b = show_nat (length (snd b)) # fst b # snd b"

text \<open>
  Modelled from the spec: the content of a file that holds the given frame blocks and
  nothing else: "multiple frames concatenate with no separator beyond the next
  atom-count line" (section 6).
\<close>

definition blocks_text :: "block list \<Rightarrow> string" where
  "blocks_text bs = unlines (concat (map block_lines bs))"

subsection \<open>Example data\<close>

text \<open>
  A trajectory just opened for reading on a file of two frames of one atom each, in the
  plain-text format.
\<close>

definition two_frames :: trajectory where
  "two_frames =
     \<lparr>path = ''water.xyz'', mode = Read, format = xyz_codec,
      content = unlines [''1'', ''first'', ''O 0 0 0'', ''1'', ''second'', ''H 1.5 -2 3''],
      cursor = 0, next_step = 0, cell_override = None, topology_override = None\<rparr>"



text \<open>The registry that knows the plain-text format, under its name and its extension.\<close>

definition xyz_registry :: registry where
  "xyz_registry = [\<lparr>format_name = ''XYZ'', format_extension = ''xyz'', format_codec = xyz_codec\<rparr>]"

text \<open>A coordinate that is a whole number.\<close>

definition whole :: "int \<Rightarrow> decimal" where
  "whole k = \<lparr>mantissa = k, scale = 0\<rparr>"


text \<open>
  The first frame of the test \<open>test_write\<close>: four atoms named \<open>X\<close> at \<open>(1, 2, 3)\<close>.
\<close>

definition frame_1 :: frame where
  "frame_1 =
     \<lparr>step = 0,
      positions = replicate 4 (whole 1, whole 2, whole 3),
      velocities = None,
      cell = Infinite,
      topology = \<lparr>atoms = replicate 4 \<lparr>name = ''X''\<rparr>, bonds = []\<rparr>\<rparr>"

text \<open>
  The second frame of the test \<open>test_write\<close>: six atoms named \<open>X\<close> at \<open>(4, 5, 6)\<close>.
\<close>

definition frame_2 :: frame where
  "frame_2 =
     \<lparr>step = 0,
      positions = replicate 6 (whole 4, whole 5, whole 6),
      velocities = None,
      cell = Infinite,
      topology = \<lparr>atoms = replicate 6 \<lparr>name = ''X''\<rparr>, bonds = []\<rparr>\<rparr>"

text \<open>\<open>sep.join(parts)\<close> of Python, on strings.\<close>

fun join :: "string \<Rightarrow> string list \<Rightarrow> string" where
  "join sep [] = []"
| "join sep [x] = x"
| "join sep (x # y # zs) = x @ sep @ join sep (y # zs)"

text \<open>
  The \<open>expected_content\<close> of the test \<open>test_write\<close>: its fifteen parts, the last one empty,
  joined by line breaks.
\<close>

definition expected_content :: string where
  "expected_content =
     join [CHR 0x0A]
       [''4'',
        ''Written by Chemharp'',
        ''X 1 2 3'',
        ''X 1 2 3'',
        ''X 1 2 3'',
        ''X 1 2 3'',
        ''6'',
        ''Written by Chemharp'',
        ''X 4 5 6'',
        ''X 4 5 6'',
        ''X 4 5 6'',
        ''X 4 5 6'',
        ''X 4 5 6'',
        ''X 4 5 6'',
        '''']"

section \<open>Properties of the setters\<close>

lemma tuple_getitem_short:
  "length tup < 2 \<Longrightarrow> tuple_getitem tup 1 = Inl (IndexError ''tuple index out of range'')"
  by (simp add: tuple_getitem_def)

lemma tuple_getitem_1:
  "2 \<le> length tup \<Longrightarrow> tuple_getitem tup 1 = Inr (tup ! 1)"
  by (simp add: tuple_getitem_def)

lemma tuple_getitem_0:
  "1 \<le> length tup \<Longrightarrow> tuple_getitem tup 0 = Inr (tup ! 0)"
  by (cases tup) (simp_all add: tuple_getitem_def)

lemma set_positions_short_shape:
  "length (shape a) < 2 \<Longrightarrow>
   set_positions c_lib h a = Inl (IndexError ''tuple index out of range'')"
  by (simp add: set_positions_def tuple_getitem_short)

lemma set_velocities_short_shape:
  "length (shape a) < 2 \<Longrightarrow>
   set_velocities c_lib h a = Inl (IndexError ''tuple index out of range'')"
  by (simp add: set_velocities_def tuple_getitem_short)

lemma set_positions_accepts:
  "2 \<le> length (shape a) \<Longrightarrow> shape a ! 1 = 3 \<Longrightarrow> dtype a = Float32 \<Longrightarrow>
   set_positions c_lib h a = Inr (chfl_frame_set_positions c_lib h a (shape a ! 0))"
  by (simp add: set_positions_def tuple_getitem_1 tuple_getitem_0)

lemma set_velocities_accepts:
  "2 \<le> length (shape a) \<Longrightarrow> shape a ! 1 = 3 \<Longrightarrow> dtype a = Float32 \<Longrightarrow>
   set_velocities c_lib h a = Inr (chfl_frame_set_velocities c_lib h a (shape a ! 0))"
  by (simp add: set_velocities_def tuple_getitem_1 tuple_getitem_0)

lemma set_positions_rejects:
  "2 \<le> length (shape a) \<Longrightarrow> shape a ! 1 \<noteq> 3 \<or> dtype a \<noteq> Float32 \<Longrightarrow>
   is_ArgumentError (set_positions c_lib h a) \<and>
   handle_after h (set_positions c_lib h a) = h"
  by (auto simp add: set_positions_def tuple_getitem_1 is_ArgumentError_def handle_after_def)

lemma set_velocities_rejects:
  "2 \<le> length (shape a) \<Longrightarrow> shape a ! 1 \<noteq> 3 \<or> dtype a \<noteq> Float32 \<Longrightarrow>
   is_ArgumentError (set_velocities c_lib h a) \<and>
   handle_after h (set_velocities c_lib h a) = h"
  by (auto simp add: set_velocities_def tuple_getitem_1 is_ArgumentError_def handle_after_def)

lemma set_positions_succeeds_iff:
  "(\<exists>h'. set_positions c_lib h a = Inr h') \<longleftrightarrow>
   2 \<le> length (shape a) \<and> shape a ! 1 = 3 \<and> dtype a = Float32"
proof (cases "2 \<le> length (shape a)")
  case True
  then show ?thesis
    by (auto simp add: set_positions_def tuple_getitem_1 tuple_getitem_0)
next
  case False
  then have "length (shape a) < 2" by simp
  then show ?thesis
    by (simp add: set_positions_short_shape)
qed

lemma set_velocities_succeeds_iff:
  "(\<exists>h'. set_velocities c_lib h a = Inr h') \<longleftrightarrow>
   2 \<le> length (shape a) \<and> shape a ! 1 = 3 \<and> dtype a = Float32"
proof (cases "2 \<le> length (shape a)")
  case True
  then show ?thesis
    by (auto simp add: set_velocities_def tuple_getitem_1 tuple_getitem_0)
next
  case False
  then have "length (shape a) < 2" by simp
  then show ?thesis
    by (simp add: set_velocities_short_shape)
qed

text \<open>
  C10. The setters look at \<open>shape[1]\<close> and at the element type, and at nothing else.
  An array with fewer than two axes ends both setters with Python's \<open>IndexError\<close>, raised
  by the read of \<open>shape[1]\<close>, and not with \<open>ArgumentError\<close>. An array with three axes or
  more whose second axis has length 3 and whose elements are \<open>float32\<close> passes both checks
  and is handed to the native function together with \<open>shape[0]\<close>. The native function is
  reached exactly when the shape has a second entry equal to 3 and the element type is
  \<open>float32\<close>.
\<close>

theorem setters_validate_second_axis_and_dtype_only:
  "(length (shape a) < 2 \<longrightarrow>
      set_positions c_lib h a = Inl (IndexError ''tuple index out of range'') \<and>
      set_velocities c_lib h a = Inl (IndexError ''tuple index out of range'') \<and>
      \<not> is_ArgumentError (set_positions c_lib h a) \<and>
      \<not> is_ArgumentError (set_velocities c_lib h a)) \<and>
   (3 \<le> length (shape a) \<and> shape a ! 1 = 3 \<and> dtype a = Float32 \<longrightarrow>
      set_positions c_lib h a = Inr (chfl_frame_set_positions c_lib h a (shape a ! 0)) \<and>
      set_velocities c_lib h a = Inr (chfl_frame_set_velocities c_lib h a (shape a ! 0))) \<and>
   ((\<exists>h'. set_positions c_lib h a = Inr h') \<longleftrightarrow>
      2 \<le> length (shape a) \<and> shape a ! 1 = 3 \<and> dtype a = Float32) \<and>
   ((\<exists>h'. set_velocities c_lib h a = Inr h') \<longleftrightarrow>
      2 \<le> length (shape a) \<and> shape a ! 1 = 3 \<and> dtype a = Float32)"
proof -
  have short: "length (shape a) < 2 \<longrightarrow>
      set_positions c_lib h a = Inl (IndexError ''tuple index out of range'') \<and>
      set_velocities c_lib h a = Inl (IndexError ''tuple index out of range'') \<and>
      \<not> is_ArgumentError (set_positions c_lib h a) \<and>
      \<not> is_ArgumentError (set_velocities c_lib h a)"
    by (simp add: set_positions_short_shape set_velocities_short_shape is_ArgumentError_def)
  have deep: "3 \<le> length (shape a) \<and> shape a ! 1 = 3 \<and> dtype a = Float32 \<longrightarrow>
      set_positions c_lib h a = Inr (chfl_frame_set_positions c_lib h a (shape a ! 0)) \<and>
      set_velocities c_lib h a = Inr (chfl_frame_set_velocities c_lib h a (shape a ! 0))"
    by (simp add: set_positions_accepts set_velocities_accepts)
  from short deep set_positions_succeeds_iff [of c_lib h a]
    set_velocities_succeeds_iff [of c_lib h a]
  show ?thesis by blast
qed

text \<open>
  The theorem at two arrays of \<open>float32\<close>: one of shape \<open>(3,)\<close>, one of shape
  \<open>(2, 3, 5)\<close>. The native library of the example keeps the first \<open>3 * rows\<close> elements of
  the buffer as the positions, and likewise for the velocities.
\<close>

theorem setters_validate_second_axis_and_dtype_only_witness:
  "set_positions
     \<lparr>chfl_frame_set_positions = (\<lambda>h a n. take (3 * n) (buffer a)),
      chfl_frame_set_velocities = (\<lambda>h a n. take (3 * n) (buffer a))\<rparr>
     [7, 7, 7 :: nat] \<lparr>shape = [3], dtype = Float32, buffer = [1, 2, 3]\<rparr>
     = Inl (IndexError ''tuple index out of range'') \<and>
   set_velocities
     \<lparr>chfl_frame_set_positions = (\<lambda>h a n. take (3 * n) (buffer a)),
      chfl_frame_set_velocities = (\<lambda>h a n. take (3 * n) (buffer a))\<rparr>
     [7, 7, 7 :: nat] \<lparr>shape = [2, 3, 5], dtype = Float32, buffer = replicate 30 0\<rparr>
     = Inr (replicate 6 0)"
  using
    setters_validate_second_axis_and_dtype_only
      [of "\<lparr>shape = [3], dtype = Float32, buffer = [1, 2, 3 :: nat]\<rparr>"
          "\<lparr>chfl_frame_set_positions = (\<lambda>h a n. take (3 * n) (buffer a)),
            chfl_frame_set_velocities = (\<lambda>h a n. take (3 * n) (buffer a))\<rparr>"
          "[7, 7, 7 :: nat]"]
    setters_validate_second_axis_and_dtype_only
      [of "\<lparr>shape = [2, 3, 5], dtype = Float32, buffer = replicate 30 (0 :: nat)\<rparr>"
          "\<lparr>chfl_frame_set_positions = (\<lambda>h a n. take (3 * n) (buffer a)),
            chfl_frame_set_velocities = (\<lambda>h a n. take (3 * n) (buffer a))\<rparr>"
          "[7, 7, 7 :: nat]"]
  by (simp add: numeral_eq_Suc)

text \<open>
  C7. The claim: every array whose shape is not \<open>N \<times> 3\<close>, or whose elements are not
  \<open>float32\<close>, ends \<open>set_positions\<close> and \<open>set_velocities\<close> with \<open>ArgumentError\<close>. The code at
  two arrays of \<open>float32\<close> whose shape is not \<open>N \<times> 3\<close>: the shape \<open>(3,)\<close> ends both setters
  with \<open>IndexError\<close>, and the shape \<open>(2, 3, 5)\<close> is accepted by both and reaches the native
  function with a row count of 2.
\<close>

theorem setters_miss_arrays_not_of_two_axes:
  "\<not> is_Nx3 [3] \<and> \<not> is_Nx3 [2, 3, 5] \<and>
   set_positions c_lib h \<lparr>shape = [3], dtype = Float32, buffer = b\<rparr>
     = Inl (IndexError ''tuple index out of range'') \<and>
   \<not> is_ArgumentError (set_positions c_lib h \<lparr>shape = [3], dtype = Float32, buffer = b\<rparr>) \<and>
   set_velocities c_lib h \<lparr>shape = [3], dtype = Float32, buffer = b\<rparr>
     = Inl (IndexError ''tuple index out of range'') \<and>
   \<not> is_ArgumentError (set_velocities c_lib h \<lparr>shape = [3], dtype = Float32, buffer = b\<rparr>) \<and>
   set_positions c_lib h \<lparr>shape = [2, 3, 5], dtype = Float32, buffer = b\<rparr>
     = Inr (chfl_frame_set_positions c_lib h
              \<lparr>shape = [2, 3, 5], dtype = Float32, buffer = b\<rparr> 2) \<and>
   set_velocities c_lib h \<lparr>shape = [2, 3, 5], dtype = Float32, buffer = b\<rparr>
     = Inr (chfl_frame_set_velocities c_lib h
              \<lparr>shape = [2, 3, 5], dtype = Float32, buffer = b\<rparr> 2)"
  by (simp add: is_Nx3_def set_positions_def set_velocities_def tuple_getitem_def
      is_ArgumentError_def)

section \<open>Properties of the engine\<close>

subsection \<open>Lines, fields and decimal numbers\<close>

declare show_nat.simps [simp del]

lemma lines_from_line:
  "newline \<notin> set l \<Longrightarrow> lines_from acc (l @ newline # rest) = (rev acc @ l) # lines_from [] rest"
  by (induction l arbitrary: acc) auto

lemma lines_from_unlines:
  "list_all (\<lambda>l. newline \<notin> set l) ls \<Longrightarrow> lines_from [] (unlines ls @ rest) = ls @ lines_from [] rest"
proof (induction ls)
  case Nil
  then show ?case by (simp add: unlines_def)
next
  case (Cons l ls)
  then have "lines_from [] (l @ newline # (unlines ls @ rest)) = l # lines_from [] (unlines ls @ rest)"
    by (simp add: lines_from_line)
  with Cons show ?case by (simp add: unlines_def)
qed

lemma text_lines_unlines:
  "list_all (\<lambda>l. newline \<notin> set l) ls \<Longrightarrow> text_lines (unlines ls) = ls"
  using lines_from_unlines [of ls "[]"] by (simp add: text_lines_def)

lemma digit_value_digit_char: "d < 10 \<Longrightarrow> digit_value (digit_char d) = Some d"
  by (simp add: digit_value_def digit_char_def)

lemma digit_value_newline: "digit_value newline = None"
  by (simp add: digit_value_def newline_def)

lemma digit_value_blank: "is_blank c \<Longrightarrow> digit_value c = None"
  by (auto simp add: is_blank_def digit_value_def)

lemma show_nat_digits: "list_all (\<lambda>c. digit_value c \<noteq> None) (show_nat n)"
proof (induction n rule: show_nat.induct)
  case (1 n)
  show ?case
  proof (cases "n < 10")
    case True
    then show ?thesis
      by (subst show_nat.simps) (simp add: digit_value_digit_char)
  next
    case False
    with 1 show ?thesis
      by (subst show_nat.simps) (simp add: digit_value_digit_char)
  qed
qed

lemma show_nat_not_empty: "show_nat n \<noteq> []"
  by (subst show_nat.simps) simp

lemma show_nat_no_newline: "newline \<notin> set (show_nat n)"
  using show_nat_digits [of n] digit_value_newline
  by (auto simp add: list_all_iff)

lemma show_nat_no_blank: "list_all (\<lambda>c. \<not> is_blank c) (show_nat n)"
  using show_nat_digits [of n] digit_value_blank
  by (auto simp add: list_all_iff)

lemma parse_digits_snoc:
  "parse_digits acc (s @ [c]) =
     (case parse_digits acc s of
        None \<Rightarrow> None
      | Some m \<Rightarrow> (case digit_value c of None \<Rightarrow> None | Some d \<Rightarrow> Some (10 * m + d)))"
  by (induction s arbitrary: acc) (auto split: option.splits)

lemma parse_digits_show_nat: "parse_digits 0 (show_nat n) = Some n"
proof (induction n rule: show_nat.induct)
  case (1 n)
  show ?case
  proof (cases "n < 10")
    case True
    then show ?thesis
      by (subst show_nat.simps) (simp add: digit_value_digit_char)
  next
    case False
    with 1 have "parse_digits 0 (show_nat (n div 10)) = Some (n div 10)" by simp
    with False show ?thesis
      by (subst show_nat.simps) (simp add: parse_digits_snoc digit_value_digit_char)
  qed
qed

lemma parse_nat_show_nat: "parse_nat (show_nat n) = Some n"
  by (simp add: parse_nat_def show_nat_not_empty parse_digits_show_nat)

lemma fields_from_token:
  "list_all (\<lambda>c. \<not> is_blank c) s \<Longrightarrow> acc \<noteq> [] \<or> s \<noteq> [] \<Longrightarrow>
   fields_from acc s = [rev acc @ s]"
  by (induction s arbitrary: acc) auto

lemma line_fields_token:
  "list_all (\<lambda>c. \<not> is_blank c) s \<Longrightarrow> s \<noteq> [] \<Longrightarrow> line_fields s = [s]"
  using fields_from_token [of s "[]"] by (simp add: line_fields_def)

lemma parse_count_show_nat: "parse_count (show_nat n) = Some n"
  by (simp add: parse_count_def line_fields_token show_nat_no_blank show_nat_not_empty
      parse_nat_show_nat)

subsection \<open>Scanning frame blocks\<close>

lemma is_line_show_nat: "is_line (show_nat n)"
  by (simp add: is_line_def show_nat_no_newline)

lemma block_lines_are_lines: "is_block b \<Longrightarrow> list_all is_line (block_lines b)"
  by (simp add: is_block_def block_lines_def is_line_show_nat)

lemma blocks_lines_are_lines:
  "list_all is_block bs \<Longrightarrow> list_all is_line (concat (map block_lines bs))"
  by (induction bs) (simp_all add: block_lines_are_lines)

lemma text_lines_blocks_text:
  "list_all is_block bs \<Longrightarrow> text_lines (blocks_text bs) = concat (map block_lines bs)"
  using blocks_lines_are_lines [of bs] text_lines_unlines [of "concat (map block_lines bs)"]
  by (simp add: blocks_text_def is_line_def [abs_def])

lemma xyz_header_block: "xyz_header (block_lines b @ rest) = Inr (length (snd b))"
  by (simp add: xyz_header_def block_lines_def parse_count_show_nat)

lemma xyz_scan_block: "xyz_scan (block_lines b @ rest) = Suc (xyz_scan rest)"
  by (simp add: block_lines_def parse_count_show_nat)

lemma xyz_scan_blocks: "xyz_scan (concat (map block_lines bs) @ rest) = length bs + xyz_scan rest"
  by (induction bs) (simp_all add: xyz_scan_block)

lemma xyz_step_count_blocks_text:
  "list_all is_block bs \<Longrightarrow> xyz_step_count (blocks_text bs) = length bs"
  using xyz_scan_blocks [of bs "[]"]
  by (simp add: xyz_step_count_def text_lines_blocks_text)

subsection \<open>Sequential reads and random access\<close>

lemma xyz_read_block_size:
  "xyz_read_block ls = Inr (f, k) \<Longrightarrow> xyz_header ls = Inr (k - 2) \<and> 2 \<le> k"
  by (auto simp add: xyz_read_block_def split: sum.splits option.splits)

lemma read_xyz:
  "mode t = Read \<Longrightarrow> format t = xyz_codec \<Longrightarrow>
   read t =
     (case xyz_read_block (drop (cursor t) (text_lines (content t))) of
        Inl e \<Rightarrow> Inl e
      | Inr (f, k) \<Rightarrow>
          Inr (apply_overrides t (f\<lparr>step := next_step t\<rparr>),
               t\<lparr>cursor := cursor t + k, next_step := Suc (next_step t)\<rparr>))"
  by (simp add: read_def xyz_codec_def xyz_read_next_def split: sum.splits prod.splits)

lemma apply_overrides_cursor [simp]:
  "apply_overrides (t\<lparr>cursor := c, next_step := s\<rparr>) f = apply_overrides t f"
  by (simp add: apply_overrides_def Let_def split: option.splits)

lemma seek_after_reads:
  "mode t = Read \<Longrightarrow> format t = xyz_codec \<Longrightarrow>
   read_calls t (replicate k ReadNext) = Inr (fs, t') \<Longrightarrow>
   \<exists>pos. xyz_seek k (drop (cursor t) (text_lines (content t))) = Inr pos \<and>
         t' = t\<lparr>cursor := cursor t + pos, next_step := next_step t + k\<rparr> \<and>
         length fs = k"
proof (induction k arbitrary: t fs t')
  case 0
  then show ?case by simp
next
  case (Suc k)
  from Suc.prems(3) obtain f t1 fs1 where
    r: "read t = Inr (f, t1)" and
    rs: "read_calls t1 (replicate k ReadNext) = Inr (fs1, t')" and
    fs: "fs = f # fs1"
    by (auto simp add: read_call_def split: sum.splits prod.splits)
  from r Suc.prems(1,2) obtain f0 n where
    b: "xyz_read_block (drop (cursor t) (text_lines (content t))) = Inr (f0, n)" and
    t1: "t1 = t\<lparr>cursor := cursor t + n, next_step := Suc (next_step t)\<rparr>"
    by (auto simp add: read_xyz split: sum.splits prod.splits)
  from b have h0: "xyz_header (drop (cursor t) (text_lines (content t))) = Inr (n - 2)"
    and n2: "2 \<le> n"
    by (simp_all add: xyz_read_block_size)
  define m where "m = n - 2"
  with n2 have n: "n = m + 2" by simp
  from h0 n have h: "xyz_header (drop (cursor t) (text_lines (content t))) = Inr m"
    by simp
  from t1 Suc.prems(1,2) have m1: "mode t1 = Read" and f1: "format t1 = xyz_codec"
    by simp_all
  from Suc.IH [OF m1 f1 rs] obtain pos where
    s: "xyz_seek k (drop (cursor t1) (text_lines (content t1))) = Inr pos" and
    t': "t' = t1\<lparr>cursor := cursor t1 + pos, next_step := next_step t1 + k\<rparr>" and
    l: "length fs1 = k"
    by blast
  from t1 have c1: "cursor t1 = cursor t + n" and c2: "content t1 = content t"
    by simp_all
  from s have s2: "xyz_seek k (drop (cursor t + n) (text_lines (content t))) = Inr pos"
    by (simp only: c1 c2)
  have e: "m + 2 + cursor t = cursor t + n"
    using n by simp
  have dd: "drop (m + 2) (drop (cursor t) (text_lines (content t))) =
        drop (cursor t + n) (text_lines (content t))"
    by (simp only: drop_drop e)
  have s': "xyz_seek k (drop (m + 2) (drop (cursor t) (text_lines (content t)))) = Inr pos"
    by (simp only: dd s2)
  have r1: "xyz_seek (Suc k) (drop (cursor t) (text_lines (content t))) = Inr (n + pos)"
    by (simp only: xyz_seek.simps h sum.case s' n)
  from t' t1 have r2: "t' = t\<lparr>cursor := cursor t + (n + pos), next_step := next_step t + Suc k\<rparr>"
    by (simp add: add.assoc)
  from fs l have r3: "length fs = Suc k"
    by simp
  from r1 r2 r3 show ?case
    by (intro exI [of _ "n + pos"] conjI)
qed

lemma read_calls_append:
  "read_calls t (a @ b) =
     (case read_calls t a of
        Inl e \<Rightarrow> Inl e
      | Inr (fs, t1) \<Rightarrow>
          (case read_calls t1 b of
             Inl e \<Rightarrow> Inl e
           | Inr (gs, t2) \<Rightarrow> Inr (fs @ gs, t2)))"
  by (induction a arbitrary: t) (auto split: sum.splits prod.splits)

lemma read_calls_snoc:
  "read_calls t (replicate (Suc n) ReadNext) = Inr (fs, t') \<Longrightarrow>
   \<exists>fs1 t1 f. read_calls t (replicate n ReadNext) = Inr (fs1, t1) \<and>
             read t1 = Inr (f, t') \<and> fs = fs1 @ [f]"
proof -
  assume a: "read_calls t (replicate (Suc n) ReadNext) = Inr (fs, t')"
  have e: "replicate (Suc n) ReadNext = replicate n ReadNext @ [ReadNext]"
    by (simp add: replicate_append_same)
  from a have "read_calls t (replicate n ReadNext @ [ReadNext]) = Inr (fs, t')"
    by (simp only: e)
  then show ?thesis
    by (auto simp add: read_calls_append read_call_def split: sum.splits prod.splits)
qed

lemma read_after_reads_is_read_step:
  assumes m: "mode t = Read" and c: "format t = xyz_codec"
    and fresh: "cursor t = 0" "next_step t = 0"
    and n: "n < nsteps t"
    and rs: "read_calls t (replicate n ReadNext) = Inr (fs, t1)"
  shows "read t1 = read_step t n"
proof -
  from seek_after_reads [OF m c rs] fresh obtain pos where
    s: "xyz_seek n (text_lines (content t)) = Inr pos" and
    t1: "t1 = t\<lparr>cursor := pos, next_step := n\<rparr>"
    by auto
  from t1 m c have m1: "mode t1 = Read" and c1: "format t1 = xyz_codec"
    by simp_all
  have "read t1 =
     (case xyz_read_block (drop pos (text_lines (content t))) of
        Inl e \<Rightarrow> Inl e
      | Inr (f, k) \<Rightarrow>
          Inr (apply_overrides t (f\<lparr>step := n\<rparr>),
               t\<lparr>cursor := pos + k, next_step := Suc n\<rparr>))"
    by (subst read_xyz [OF m1 c1]) (simp add: t1 split: sum.splits prod.splits)
  moreover have "read_step t n =
     (case xyz_read_block (drop pos (text_lines (content t))) of
        Inl e \<Rightarrow> Inl e
      | Inr (f, k) \<Rightarrow>
          Inr (apply_overrides t (f\<lparr>step := n\<rparr>),
               t\<lparr>cursor := pos + k, next_step := Suc n\<rparr>))"
    using m c n
    by (simp add: read_step_def nsteps_def xyz_codec_def xyz_read_at_step_def s
        xyz_read_next_def split: sum.splits prod.splits)
  ultimately show ?thesis by simp
qed

subsection \<open>Overrides\<close>

lemma read_keeps:
  "read t = Inr (f, t') \<Longrightarrow>
   \<exists>pos s. t' = t\<lparr>cursor := pos, next_step := s\<rparr>"
  by (auto simp add: read_def split: if_splits sum.splits prod.splits)

lemma read_step_keeps:
  "read_step t n = Inr (f, t') \<Longrightarrow>
   \<exists>pos s. t' = t\<lparr>cursor := pos, next_step := s\<rparr>"
  by (auto simp add: read_step_def split: if_splits sum.splits prod.splits)

lemma read_call_keeps:
  "read_call t c = Inr (f, t') \<Longrightarrow>
   \<exists>pos s. t' = t\<lparr>cursor := pos, next_step := s\<rparr>"
  by (cases c) (auto simp add: read_call_def dest: read_keeps read_step_keeps)

lemma read_call_overridden:
  "read_call t c = Inr (f, t') \<Longrightarrow> \<exists>g. f = apply_overrides t g"
  by (cases c)
    (auto simp add: read_call_def read_def read_step_def split: if_splits sum.splits prod.splits)

lemma apply_overrides_cell:
  "cell_override t = Some c \<Longrightarrow> \<not> carries_cell (format t) \<Longrightarrow>
   cell (apply_overrides t g) = c"
  by (simp add: apply_overrides_def Let_def split: option.splits)

lemma apply_overrides_topology:
  "topology_override t = Some tp \<Longrightarrow> \<not> carries_topology (format t) \<Longrightarrow>
   topology (apply_overrides t g) = tp"
  by (simp add: apply_overrides_def Let_def split: option.splits)

lemma read_calls_keep:
  "read_calls t calls = Inr (fs, t') \<Longrightarrow>
   \<exists>pos s. t' = t\<lparr>cursor := pos, next_step := s\<rparr>"
proof (induction calls arbitrary: t fs)
  case Nil
  then have "t' = t\<lparr>cursor := cursor t, next_step := next_step t\<rparr>" by simp
  then show ?case by (intro exI)
next
  case (Cons c calls)
  from Cons.prems obtain f t1 fs1 where
    r: "read_call t c = Inr (f, t1)" and rs: "read_calls t1 calls = Inr (fs1, t')"
    by (auto split: sum.splits prod.splits)
  from read_call_keeps [OF r] obtain p1 s1 where t1: "t1 = t\<lparr>cursor := p1, next_step := s1\<rparr>"
    by (elim exE)
  from Cons.IH [OF rs] obtain p2 s2 where "t' = t1\<lparr>cursor := p2, next_step := s2\<rparr>"
    by (elim exE)
  with t1 have "t' = t\<lparr>cursor := p2, next_step := s2\<rparr>" by simp
  then show ?case by (intro exI)
qed

lemma read_calls_cell:
  "cell_override t = Some c \<Longrightarrow> \<not> carries_cell (format t) \<Longrightarrow>
   read_calls t calls = Inr (fs, t') \<Longrightarrow> list_all (\<lambda>f. cell f = c) fs"
proof (induction calls arbitrary: t fs)
  case Nil
  then show ?case by simp
next
  case (Cons k calls)
  from Cons.prems(3) obtain f t1 fs1 where
    r: "read_call t k = Inr (f, t1)" and rs: "read_calls t1 calls = Inr (fs1, t')"
    and fs: "fs = f # fs1"
    by (auto split: sum.splits prod.splits)
  from read_call_keeps [OF r] obtain p1 s1 where t1: "t1 = t\<lparr>cursor := p1, next_step := s1\<rparr>"
    by (elim exE)
  from t1 Cons.prems(1,2) have o1: "cell_override t1 = Some c" and c1: "\<not> carries_cell (format t1)"
    by simp_all
  from read_call_overridden [OF r] obtain g where "f = apply_overrides t g"
    by (elim exE)
  with Cons.prems(1,2) have "cell f = c"
    by (simp add: apply_overrides_cell)
  with Cons.IH [OF o1 c1 rs] fs show ?case by simp
qed

lemma read_calls_topology:
  "topology_override t = Some tp \<Longrightarrow> \<not> carries_topology (format t) \<Longrightarrow>
   read_calls t calls = Inr (fs, t') \<Longrightarrow> list_all (\<lambda>f. topology f = tp) fs"
proof (induction calls arbitrary: t fs)
  case Nil
  then show ?case by simp
next
  case (Cons k calls)
  from Cons.prems(3) obtain f t1 fs1 where
    r: "read_call t k = Inr (f, t1)" and rs: "read_calls t1 calls = Inr (fs1, t')"
    and fs: "fs = f # fs1"
    by (auto split: sum.splits prod.splits)
  from read_call_keeps [OF r] obtain p1 s1 where t1: "t1 = t\<lparr>cursor := p1, next_step := s1\<rparr>"
    by (elim exE)
  from t1 Cons.prems(1,2) have o1: "topology_override t1 = Some tp"
    and c1: "\<not> carries_topology (format t1)"
    by simp_all
  from read_call_overridden [OF r] obtain g where "f = apply_overrides t g"
    by (elim exE)
  with Cons.prems(1,2) have "topology f = tp"
    by (simp add: apply_overrides_topology)
  with Cons.IH [OF o1 c1 rs] fs show ?case by simp
qed

lemma read_calls_content:
  "read_calls t calls = Inr (fs, t') \<Longrightarrow>
   content t' = content t \<and> mode t' = mode t \<and> path t' = path t \<and> format t' = format t \<and>
   cell_override t' = cell_override t \<and> topology_override t' = topology_override t"
proof -
  assume "read_calls t calls = Inr (fs, t')"
  from read_calls_keep [OF this] obtain pos s where "t' = t\<lparr>cursor := pos, next_step := s\<rparr>"
    by (elim exE)
  then show ?thesis by simp
qed

lemma set_topology_file_sets:
  "set_topology_file reg files t p = Inr t1 \<Longrightarrow> \<exists>tp. t1 = set_topology t tp"
  by (auto simp add: set_topology_file_def split: sum.splits prod.splits)

section \<open>Random access and sequential reading\<close>


text \<open>
  From the start of the file, \<open>read_step n\<close> is the last of \<open>n + 1\<close> calls of \<open>read\<close>.
\<close>

lemma read_step_from_start:
  assumes "mode t = Read" and "format t = xyz_codec"
    and "cursor t = 0" and "next_step t = 0"
    and "n < nsteps t"
    and "read_calls t (replicate (Suc n) ReadNext) = Inr (fs, t')"
  shows "read_step t n = Inr (last fs, t')"
proof -
  from read_calls_snoc [OF assms(6)] obtain fs1 t1 f where
    rs: "read_calls t (replicate n ReadNext) = Inr (fs1, t1)" and
    r: "read t1 = Inr (f, t')" and fs: "fs = fs1 @ [f]"
    by blast
  from read_after_reads_is_read_step [OF assms(1-5) rs] r fs
  show ?thesis by simp
qed




section \<open>Further properties of the modelled engine\<close>

text \<open>
  The file of the test \<open>test_write\<close>, evaluated: a new trajectory is opened for writing,
  the two frames are written and the trajectory is closed.
\<close>

lemma test_write_evaluated:
  "(case open_trajectory xyz_registry Map.empty ''test-tmp.xyz'' Write None of
      Inl e \<Rightarrow> None
    | Inr fd \<Rightarrow>
        (case write_all fd [frame_1, frame_2] of
           Inl e \<Rightarrow> None
         | Inr fd' \<Rightarrow> close_trajectory Map.empty fd' ''test-tmp.xyz''))
   = Some expected_content"
  by code_simp

text \<open>
  Writing the two frames of the test \<open>test_write\<close>, of four and of six atoms, to a new
  file in the plain-text format leaves exactly the text the test expects in the file:
  for each frame the decimal atom count, the comment line \<open>Written by Chemharp\<close> and one
  line \<open>X x y z\<close> per atom, the two blocks one after the other, every line closed by one
  line break and nothing after the last.
\<close>

lemma test_write_content:
  "\<exists>fd fd'.
     open_trajectory xyz_registry Map.empty ''test-tmp.xyz'' Write None = Inr fd \<and>
     write_all fd [frame_1, frame_2] = Inr fd' \<and>
     close_trajectory Map.empty fd' ''test-tmp.xyz'' = Some expected_content \<and>
     length (positions frame_1) = 4 \<and> length (positions frame_2) = 6"
proof -
  obtain fd where o: "open_trajectory xyz_registry Map.empty ''test-tmp.xyz'' Write None = Inr fd"
    using test_write_evaluated
    by (cases "open_trajectory xyz_registry Map.empty ''test-tmp.xyz'' Write None") simp_all
  obtain fd' where w: "write_all fd [frame_1, frame_2] = Inr fd'"
    using test_write_evaluated o
    by (cases "write_all fd [frame_1, frame_2]") simp_all
  from test_write_evaluated o w
  have "close_trajectory Map.empty fd' ''test-tmp.xyz'' = Some expected_content"
    by simp
  with o w show ?thesis
    by (simp add: frame_1_def frame_2_def)
qed

text \<open>
  For the plain-text codec: a trajectory opened for reading on a file that holds
  frame blocks and nothing else reports as \<open>nsteps\<close> the number of those blocks. A block
  is a count line, a comment line and as many atom lines as the count says.
\<close>

lemma nsteps_counts_frame_blocks:
  assumes "list_all is_block bs"
    and "files p = Some (blocks_text bs)"
    and "resolve_codec reg p fmt = Inr xyz_codec"
  shows "\<exists>t. open_trajectory reg files p Read fmt = Inr t \<and> nsteps t = length bs"
proof -
  from assms(2,3) have
    "open_trajectory reg files p Read fmt =
       Inr \<lparr>path = p, mode = Read, format = xyz_codec, content = blocks_text bs, cursor = 0,
            next_step = 0, cell_override = None, topology_override = None\<rparr>"
    by (simp add: open_trajectory_def open_file_def)
  moreover have
    "nsteps \<lparr>path = p, mode = Read, format = xyz_codec, content = blocks_text bs, cursor = 0,
            next_step = 0, cell_override = None, topology_override = None\<rparr> = length bs"
    using assms(1) by (simp add: nsteps_def xyz_codec_def xyz_step_count_blocks_text)
  ultimately show ?thesis by simp
qed

text \<open>
  The lemma on a file of 100 blocks of 297 atom lines each, the sizes of the fixture
  \<open>water.xyz\<close> of the test \<open>test_read\<close>: \<open>nsteps\<close> is 100.
\<close>

lemma nsteps_counts_frame_blocks_example:
  "\<exists>t. open_trajectory xyz_registry
          [''water.xyz'' \<mapsto>
             blocks_text (replicate 100 (''water'', replicate 297 ''O 0.417219 8.303366 11.737172''))]
          ''water.xyz'' Read None = Inr t \<and>
       nsteps t = 100"
proof -
  have b: "list_all is_block (replicate 100 (''water'', replicate 297 ''O 0.417219 8.303366 11.737172''))"
    by (simp add: list_all_iff is_block_def is_line_def newline_def)
  have r: "resolve_codec xyz_registry ''water.xyz'' None = Inr xyz_codec"
    by (simp add: resolve_codec_def extension_def xyz_registry_def)
  from nsteps_counts_frame_blocks [OF b _ r, of "[''water.xyz'' \<mapsto>
             blocks_text (replicate 100 (''water'', replicate 297 ''O 0.417219 8.303366 11.737172''))]"]
  show ?thesis by simp
qed

text \<open>
  Opening a path that has no extension, with no format name, fails with FormatError
  and the message \<open>file at '<path>' does not have an extension, provide a format name to
  read it\<close>, in every mode and whether or not a file is there. After the failure the
  last-error text is the same message, and an installed warning callback has received
  the same message; what the callback returns or raises does not change the outcome.
\<close>

lemma open_without_extension_fails:
  assumes "extension p = None"
  shows "fst (Trajectory reg files d p m None) = Inl (FormatError (no_extension_message p)) \<and>
         last_error (snd (Trajectory reg files d p m None)) = no_extension_message p \<and>
         (\<forall>callback. warning_callback d = Some callback \<longrightarrow>
            caller_state (snd (Trajectory reg files d p m None)) =
              snd (callback (no_extension_message p) (caller_state d)))"
  using assms
  by (simp add: Trajectory_def open_trajectory_def resolve_codec_def report_def Let_def
      split: option.splits)

text \<open>
  The lemma at the path \<open>noextention\<close> of the tests, with a callback that stores the
  message and then raises, as in \<open>test_warning_with_exception\<close>.
\<close>

lemma open_without_extension_fails_example:
  "fst (Trajectory xyz_registry Map.empty
          \<lparr>last_error = [], warning_callback = Some (\<lambda>message last. (True, message)),
           caller_state = [], level = ERROR, diagnostic_stream = []\<rparr>
          ''noextention'' Read None)
     = Inl (FormatError
         ''file at 'noextention' does not have an extension, provide a format name to read it'') \<and>
   last_error (snd (Trajectory xyz_registry Map.empty
          \<lparr>last_error = [], warning_callback = Some (\<lambda>message last. (True, message)),
           caller_state = [], level = ERROR, diagnostic_stream = []\<rparr>
          ''noextention'' Read None))
     = ''file at 'noextention' does not have an extension, provide a format name to read it'' \<and>
   caller_state (snd (Trajectory xyz_registry Map.empty
          \<lparr>last_error = [], warning_callback = Some (\<lambda>message last. (True, message)),
           caller_state = [], level = ERROR, diagnostic_stream = []\<rparr>
          ''noextention'' Read None))
     = ''file at 'noextention' does not have an extension, provide a format name to read it''"
proof -
  have e: "extension ''noextention'' = None"
    by (simp add: extension_def)
  from open_without_extension_fails [OF e, of xyz_registry Map.empty
      "\<lparr>last_error = [], warning_callback = Some (\<lambda>message last. (True, message)),
        caller_state = [], level = ERROR, diagnostic_stream = []\<rparr>" Read]
  show ?thesis by (simp add: no_extension_message_def)
qed

text \<open>
  On a trajectory open for writing or appending, \<open>write\<close> fails with ArgumentError
  when the topology's atom count differs from the number of position rows, and then
  the trajectory, its file content included, is as before the call. When the counts
  agree the content grows by the codec's block of the frame. After the call the
  content is either the old one or the old one followed by the whole block.
\<close>

lemma write_validates_atom_count:
  assumes "mode t \<noteq> Read"
  shows "(length (atoms (topology f)) \<noteq> length (positions f) \<longrightarrow>
            (\<exists>message. trajectory_write t f = Inl (ArgumentError message)) \<and>
            trajectory_after t (trajectory_write t f) = t) \<and>
         (length (atoms (topology f)) = length (positions f) \<longrightarrow>
            trajectory_write t f = Inr (t\<lparr>content := content t @ write_frame (format t) f\<rparr>)) \<and>
         (content (trajectory_after t (trajectory_write t f)) = content t \<or>
          content (trajectory_after t (trajectory_write t f)) =
            content t @ write_frame (format t) f)"
  using assms
  by (simp add: trajectory_write_def trajectory_after_def)

text \<open>
  The lemma on a trajectory open for writing whose content is \<open>1\<close>, and a frame of four
  position rows and one atom: the call fails and the content is still \<open>1\<close>.
\<close>

lemma write_validates_atom_count_example:
  "trajectory_write
     \<lparr>path = ''test-tmp.xyz'', mode = Write, format = xyz_codec, content = ''1'', cursor = 0,
      next_step = 0, cell_override = None, topology_override = None\<rparr>
     (frame_1\<lparr>topology := \<lparr>atoms = [\<lparr>name = ''X''\<rparr>], bonds = []\<rparr>\<rparr>)
   = Inl (ArgumentError ''the topology and the positions differ in their atom counts'') \<and>
   content (trajectory_after
     \<lparr>path = ''test-tmp.xyz'', mode = Write, format = xyz_codec, content = ''1'', cursor = 0,
      next_step = 0, cell_override = None, topology_override = None\<rparr>
     (trajectory_write
        \<lparr>path = ''test-tmp.xyz'', mode = Write, format = xyz_codec, content = ''1'', cursor = 0,
         next_step = 0, cell_override = None, topology_override = None\<rparr>
        (frame_1\<lparr>topology := \<lparr>atoms = [\<lparr>name = ''X''\<rparr>], bonds = []\<rparr>\<rparr>)))
   = ''1''"
proof -
  have m: "mode \<lparr>path = ''test-tmp.xyz'', mode = Write, format = xyz_codec, content = ''1'',
      cursor = 0, next_step = 0, cell_override = None, topology_override = None\<rparr> \<noteq> Read"
    by simp
  have l: "length (atoms (topology (frame_1\<lparr>topology := \<lparr>atoms = [\<lparr>name = ''X''\<rparr>], bonds = []\<rparr>\<rparr>)))
      \<noteq> length (positions (frame_1\<lparr>topology := \<lparr>atoms = [\<lparr>name = ''X''\<rparr>], bonds = []\<rparr>\<rparr>))"
    by (simp add: frame_1_def)
  from write_validates_atom_count [OF m,
      of "frame_1\<lparr>topology := \<lparr>atoms = [\<lparr>name = ''X''\<rparr>], bonds = []\<rparr>\<rparr>"] l
  show ?thesis
    by (auto simp add: trajectory_write_def)
qed

text \<open>
  After \<open>set_cell\<close>, every frame that later calls of \<open>read\<close> and \<open>read_step\<close> return
  carries the override cell, when the format carries no cell of its own; after
  \<open>set_topology\<close>, with a topology or with the path of a file to take it from, every such
  frame carries the override topology, when the format carries none of its own.
  Neither the setters nor the reads change the content of the file, and closing the
  trajectory afterwards leaves the files as they were.
\<close>

lemma overrides_apply_to_every_later_read:
  "(\<not> carries_cell (format t) \<and> read_calls (set_cell t c) calls = Inr (fs, t') \<longrightarrow>
      list_all (\<lambda>f. cell f = c) fs \<and> content t' = content t) \<and>
   (\<not> carries_topology (format t) \<and> read_calls (set_topology t tp) calls = Inr (fs, t') \<longrightarrow>
      list_all (\<lambda>f. topology f = tp) fs \<and> content t' = content t) \<and>
   (\<not> carries_topology (format t) \<and> set_topology_file reg files t p = Inr t1 \<and>
    read_calls t1 calls = Inr (fs, t') \<longrightarrow>
      (\<exists>tp'. list_all (\<lambda>f. topology f = tp') fs) \<and> content t' = content t) \<and>
   content (set_cell t c) = content t \<and>
   content (set_topology t tp) = content t \<and>
   (mode t = Read \<and> read_calls (set_cell t c) calls = Inr (fs, t') \<longrightarrow>
      close_trajectory files t' = files) \<and>
   (mode t = Read \<and> read_calls (set_topology t tp) calls = Inr (fs, t') \<longrightarrow>
      close_trajectory files t' = files)"
proof -
  have cell_part:
    "\<not> carries_cell (format t) \<and> read_calls (set_cell t c) calls = Inr (fs, t') \<longrightarrow>
      list_all (\<lambda>f. cell f = c) fs \<and> content t' = content t"
  proof (intro impI, elim conjE)
    assume n: "\<not> carries_cell (format t)"
      and r: "read_calls (set_cell t c) calls = Inr (fs, t')"
    from n have n': "\<not> carries_cell (format (set_cell t c))"
      by (simp add: set_cell_def)
    have o: "cell_override (set_cell t c) = Some c"
      by (simp add: set_cell_def)
    from read_calls_cell [OF o n' r] read_calls_content [OF r]
    show "list_all (\<lambda>f. cell f = c) fs \<and> content t' = content t"
      by (simp add: set_cell_def)
  qed
  have topology_part:
    "\<not> carries_topology (format t) \<and> read_calls (set_topology t tp) calls = Inr (fs, t') \<longrightarrow>
      list_all (\<lambda>f. topology f = tp) fs \<and> content t' = content t" for tp
  proof (intro impI, elim conjE)
    assume n: "\<not> carries_topology (format t)"
      and r: "read_calls (set_topology t tp) calls = Inr (fs, t')"
    from n have n': "\<not> carries_topology (format (set_topology t tp))"
      by (simp add: set_topology_def)
    have o: "topology_override (set_topology t tp) = Some tp"
      by (simp add: set_topology_def)
    from read_calls_topology [OF o n' r] read_calls_content [OF r]
    show "list_all (\<lambda>f. topology f = tp) fs \<and> content t' = content t"
      by (simp add: set_topology_def)
  qed
  have file_part:
    "\<not> carries_topology (format t) \<and> set_topology_file reg files t p = Inr t1 \<and>
     read_calls t1 calls = Inr (fs, t') \<longrightarrow>
       (\<exists>tp'. list_all (\<lambda>f. topology f = tp') fs) \<and> content t' = content t"
  proof (intro impI, elim conjE)
    assume n: "\<not> carries_topology (format t)"
      and s: "set_topology_file reg files t p = Inr t1"
      and r: "read_calls t1 calls = Inr (fs, t')"
    from set_topology_file_sets [OF s] obtain tp' where t1: "t1 = set_topology t tp'"
      by (elim exE)
    from topology_part [of tp'] n r t1
    have "list_all (\<lambda>f. topology f = tp') fs \<and> content t' = content t"
      by simp
    then show "(\<exists>tp'. list_all (\<lambda>f. topology f = tp') fs) \<and> content t' = content t"
      by (intro conjI exI [of _ tp']) simp_all
  qed
  have close_cell:
    "mode t = Read \<and> read_calls (set_cell t c) calls = Inr (fs, t') \<longrightarrow>
      close_trajectory files t' = files"
  proof (intro impI, elim conjE)
    assume m: "mode t = Read" and r: "read_calls (set_cell t c) calls = Inr (fs, t')"
    from read_calls_content [OF r] m have "mode t' = Read"
      by (simp add: set_cell_def)
    then show "close_trajectory files t' = files"
      by (simp add: close_trajectory_def)
  qed
  have close_topology:
    "mode t = Read \<and> read_calls (set_topology t tp) calls = Inr (fs, t') \<longrightarrow>
      close_trajectory files t' = files"
  proof (intro impI, elim conjE)
    assume m: "mode t = Read" and r: "read_calls (set_topology t tp) calls = Inr (fs, t')"
    from read_calls_content [OF r] m have "mode t' = Read"
      by (simp add: set_topology_def)
    then show "close_trajectory files t' = files"
      by (simp add: close_trajectory_def)
  qed
  have c1: "content (set_cell t c) = content t"
    by (simp add: set_cell_def)
  have c2: "content (set_topology t tp) = content t"
    by (simp add: set_topology_def)
  from cell_part topology_part [of tp] file_part c1 c2 close_cell close_topology
  show ?thesis by (intro conjI)
qed

text \<open>
  The lemma on the file of two frames, as in the test \<open>test_read\<close>: after \<open>set_cell\<close>
  with the cell of lengths 30, 30, 30, a sequential read, a read of step 0 and another
  sequential read return three frames, each with that cell, and the content is the
  same.
\<close>

lemma overrides_apply_to_every_later_read_example:
  "\<exists>fs t'.
     read_calls (set_cell two_frames (Orthorhombic (whole 30) (whole 30) (whole 30)))
       [ReadNext, ReadStep 0, ReadNext] = Inr (fs, t') \<and>
     length fs = 3 \<and>
     list_all (\<lambda>f. cell f = Orthorhombic (whole 30) (whole 30) (whole 30)) fs \<and>
     content t' = content two_frames"
proof -
  have "case read_calls (set_cell two_frames (Orthorhombic (whole 30) (whole 30) (whole 30)))
          [ReadNext, ReadStep 0, ReadNext] of
          Inl e \<Rightarrow> False
        | Inr (fs, t') \<Rightarrow> length fs = 3"
    by code_simp
  then obtain fs t' where
    r: "read_calls (set_cell two_frames (Orthorhombic (whole 30) (whole 30) (whole 30)))
          [ReadNext, ReadStep 0, ReadNext] = Inr (fs, t')" and
    l: "length fs = 3"
    by (cases "read_calls (set_cell two_frames (Orthorhombic (whole 30) (whole 30) (whole 30)))
          [ReadNext, ReadStep 0, ReadNext]") auto
  have c: "\<not> carries_cell (format two_frames)"
    by (simp add: two_frames_def xyz_codec_def)
  from overrides_apply_to_every_later_read
    [of two_frames "Orthorhombic (whole 30) (whole 30) (whole 30)"
        "[ReadNext, ReadStep 0, ReadNext]" fs t'] c r
  have "list_all (\<lambda>f. cell f = Orthorhombic (whole 30) (whole 30) (whole 30)) fs \<and>
        content t' = content two_frames"
    by blast
  with r l show ?thesis
    by (intro exI [of _ fs] exI [of _ t']) simp
qed

end
